theory Spec2Isabelle
  imports Main
begin

section \<open>Types and type expressions of the source language\<close>

text \<open>
  The program is evaluated by the compiler: its values are types. \<open>ty\<close> holds the types
  the translation unit mentions: \<open>void\<close>, \<open>int\<close>, the unsigned size type, class types (by
  their full name), pointers, \<open>const\<close>-qualified types and the two kinds of reference.
\<close>

datatype ty =
    TVoid
  | TInt
  | TULong
  | TClass string
  | TPtr ty
  | TConst ty
  | TLRef ty
  | TRRef ty

text \<open>
  What substituting template arguments into a type expression or an expression gives:
  \<^item> \<open>WellFormed\<close>: it is well-formed and denotes the given type or expression;
  \<^item> \<open>SubstitutionFailure\<close>: it is ill-formed in the immediate context of the
    substitution; the template being considered is discarded and compilation goes on;
  \<^item> \<open>HardError\<close>: it is ill-formed outside the immediate context, inside the body of a
    class or of a function that the substitution causes to be instantiated; the
    translation unit does not compile.
\<close>

datatype 'a outcome = WellFormed 'a | SubstitutionFailure | HardError

fun is_well_formed :: "'a outcome \<Rightarrow> bool" where
  "is_well_formed (WellFormed x) = True"
| "is_well_formed SubstitutionFailure = False"
| "is_well_formed HardError = False"

text \<open>
  A template argument list \<open><A1, ..., An>\<close>: the arguments are substituted in the order
  written, and the substitution stops at the first one that fails. The template is
  applied to the types the arguments denote.
\<close>

fun template_args :: "ty outcome list \<Rightarrow> ty list outcome" where
  "template_args [] = WellFormed []"
| "template_args (WellFormed A # As) = map_outcome ((#) A) (template_args As)"
| "template_args (SubstitutionFailure # As) = SubstitutionFailure"
| "template_args (HardError # As) = HardError"

section \<open>Namespace meta\<close>

text \<open>
  An instance of a class template with (at most) the member alias \<open>type\<close>: the struct
  holding that alias, or \<open>None\<close> when the instance has no member of that name.
\<close>

record alias_struct =
  type_member :: ty

type_synonym metafunction = "ty list \<Rightarrow> alias_struct option"

text \<open>
  \<open>struct apply { using type = typename MetaFunction<Args...>::type; }\<close>

  The member alias is declared in the body of the struct. When \<open>MetaFunction<Args...>\<close>
  has no member \<open>type\<close>, instantiating \<open>apply<MetaFunction, Args...>\<close> is an error in
  that body, outside the immediate context of whatever named it.
\<close>

definition apply_meta :: "metafunction \<Rightarrow> ty list \<Rightarrow> alias_struct outcome" where
  "apply_meta MetaFunction Args =
     (case MetaFunction Args of
        None \<Rightarrow> HardError
      | Some s \<Rightarrow> WellFormed \<lparr>type_member = type_member s\<rparr>)"

text \<open>\<open>using apply_t = typename apply<MetaFunction, Args...>::type\<close>\<close>

definition apply_t :: "metafunction \<Rightarrow> ty list \<Rightarrow> ty outcome" where
  "apply_t MetaFunction Args = map_outcome type_member (apply_meta MetaFunction Args)"

text \<open>\<open>template <typename...> struct voider { using type = void; }\<close>\<close>

definition voider :: metafunction where
  "voider Ts = Some \<lparr>type_member = TVoid\<rparr>"

text \<open>\<open>using void_t = apply_t<detail::voider, Ts...>\<close>\<close>

definition void_t :: "ty list \<Rightarrow> ty outcome" where
  "void_t Ts = apply_t voider Ts"

text \<open>
  \<open>void_t<E1, ..., En>\<close> written with type expressions that may be ill-formed: the
  argument list is formed first.
\<close>

definition void_t_of :: "ty outcome list \<Rightarrow> ty outcome" where
  "void_t_of Es =
     (case template_args Es of
        WellFormed Ts \<Rightarrow> void_t Ts
      | SubstitutionFailure \<Rightarrow> SubstitutionFailure
      | HardError \<Rightarrow> HardError)"

subsection \<open>The detection predicate\<close>

text \<open>\<open>std::false_type\<close> and \<open>std::true_type\<close>, and their static member \<open>value\<close>.\<close>

datatype integral_constant = false_type | true_type

fun ic_value :: "integral_constant \<Rightarrow> bool" where
  "ic_value false_type = False"
| "ic_value true_type = True"

text \<open>
  A probe is a template of one type parameter (\<open>template <typename> class\<close>): what the
  type expression \<open>Member<Tp>\<close> gives for each \<open>Tp\<close>.
\<close>

type_synonym probe = "ty \<Rightarrow> ty outcome"

text \<open>
  The primary template:
  \<open>template <template <typename> class, typename, typename = meta::void_t<>>
   struct has_member : std::false_type {}\<close>
\<close>

definition has_member_primary :: "probe \<Rightarrow> ty \<Rightarrow> ty \<Rightarrow> integral_constant" where
  "has_member_primary Member Tp V = false_type"

text \<open>
  The partial specialization
  \<open>struct has_member<Member, Tp, meta::void_t<Member<Tp>>> : std::true_type {}\<close>
  matches the argument list \<open><Member, Tp, V>\<close> when \<open>meta::void_t<Member<Tp>>\<close> is
  well-formed and is the type \<open>V\<close>. When it is another type, or a substitution failure,
  the specialization is not a match (\<open>SubstitutionFailure\<close>) and is discarded. An error
  outside the immediate context is an error of the translation unit.
\<close>

definition has_member_specialization :: "probe \<Rightarrow> ty \<Rightarrow> ty \<Rightarrow> integral_constant outcome" where
  "has_member_specialization Member Tp V =
     (case void_t_of [Member Tp] of
        WellFormed W \<Rightarrow> if W = V then WellFormed true_type else SubstitutionFailure
      | SubstitutionFailure \<Rightarrow> SubstitutionFailure
      | HardError \<Rightarrow> HardError)"

text \<open>
  \<open>has_member<Member, Tp, V>\<close>: the matching partial specialization is more specialized
  than the primary template and is chosen; the primary template is the fallback.
\<close>

definition has_member :: "probe \<Rightarrow> ty \<Rightarrow> ty \<Rightarrow> integral_constant outcome" where
  "has_member Member Tp V =
     (case has_member_specialization Member Tp V of
        WellFormed s \<Rightarrow> WellFormed s
      | SubstitutionFailure \<Rightarrow> WellFormed (has_member_primary Member Tp V)
      | HardError \<Rightarrow> HardError)"

text \<open>
  \<open>has_member<Member, Tp>\<close>: the third argument is the default \<open>meta::void_t<>\<close>. The
  template-id is written at namespace scope, where an ill-formed default argument is
  an error of the translation unit.
\<close>

definition has_member_default :: "probe \<Rightarrow> ty \<Rightarrow> integral_constant outcome" where
  "has_member_default Member Tp =
     (case void_t_of [] of
        WellFormed V \<Rightarrow> has_member Member Tp V
      | SubstitutionFailure \<Rightarrow> HardError
      | HardError \<Rightarrow> HardError)"

text \<open>The static member \<open>value\<close> of a detection result.\<close>

definition value_of :: "integral_constant outcome \<Rightarrow> bool outcome" where
  "value_of r = map_outcome ic_value r"

text \<open>\<open>has_member<Member, Tp>::value\<close>\<close>

definition has_member_value :: "probe \<Rightarrow> ty \<Rightarrow> bool outcome" where
  "has_member_value Member Tp = value_of (has_member_default Member Tp)"

section \<open>Expressions in unevaluated operands\<close>

text \<open>
  The probes of the translation unit are \<open>decltype\<close> of expressions that are never
  evaluated: only the type and the value category of an expression matter. The type of
  an expression is never a reference.
\<close>

datatype category = LValue | XValue | PRValue

type_synonym expr = "ty \<times> category"

fun is_lvalue :: "category \<Rightarrow> bool" where
  "is_lvalue LValue = True"
| "is_lvalue XValue = False"
| "is_lvalue PRValue = False"

fun is_rvalue :: "category \<Rightarrow> bool" where
  "is_rvalue LValue = False"
| "is_rvalue XValue = True"
| "is_rvalue PRValue = True"

fun unqual :: "ty \<Rightarrow> ty" where
  "unqual (TConst T) = T"
| "unqual T = T"

fun is_const :: "ty \<Rightarrow> bool" where
  "is_const (TConst T) = True"
| "is_const T = False"

fun is_mutable :: "ty \<Rightarrow> bool" where
  "is_mutable (TConst T) = False"
| "is_mutable T = True"

fun arithmetic :: "ty \<Rightarrow> bool" where
  "arithmetic TInt = True"
| "arithmetic TULong = True"
| "arithmetic T = False"

fun scalar :: "ty \<Rightarrow> bool" where
  "scalar TInt = True"
| "scalar TULong = True"
| "scalar (TPtr T) = True"
| "scalar T = False"

text \<open>
  \<open>T const\<close> for a substituted \<open>T\<close>: \<open>const\<close> on a reference is ignored, a second
  \<open>const\<close> changes nothing.
\<close>

fun add_const :: "ty \<Rightarrow> ty" where
  "add_const (TConst T) = TConst T"
| "add_const (TLRef T) = TLRef T"
| "add_const (TRRef T) = TRRef T"
| "add_const T = TConst T"

text \<open>
  \<open>T&\<close> for a substituted \<open>T\<close>: a reference to \<open>void\<close> is ill-formed; a reference to a
  reference collapses to an lvalue reference.
\<close>

fun add_lvalue_reference :: "ty \<Rightarrow> ty outcome" where
  "add_lvalue_reference TVoid = SubstitutionFailure"
| "add_lvalue_reference (TConst TVoid) = SubstitutionFailure"
| "add_lvalue_reference (TLRef T) = WellFormed (TLRef T)"
| "add_lvalue_reference (TRRef T) = WellFormed (TLRef T)"
| "add_lvalue_reference T = WellFormed (TLRef T)"

text \<open>
  \<open>std::add_rvalue_reference_t<T>\<close>, the return type of \<open>std::declval<T>\<close>: \<open>T&&\<close> with
  reference collapsing, and \<open>T\<close> itself for \<open>void\<close>.
\<close>

fun add_rvalue_reference :: "ty \<Rightarrow> ty" where
  "add_rvalue_reference TVoid = TVoid"
| "add_rvalue_reference (TConst TVoid) = TConst TVoid"
| "add_rvalue_reference (TLRef T) = TLRef T"
| "add_rvalue_reference (TRRef T) = TRRef T"
| "add_rvalue_reference T = TRRef T"

text \<open>
  A call of a function whose return type is \<open>R\<close>: an lvalue for \<open>T&\<close>, an xvalue for
  \<open>T&&\<close>, a prvalue otherwise (a prvalue of non-class type has no \<open>const\<close>).
\<close>

fun call_expr :: "ty \<Rightarrow> expr" where
  "call_expr (TLRef T) = (T, LValue)"
| "call_expr (TRRef T) = (T, XValue)"
| "call_expr (TConst (TClass n)) = (TConst (TClass n), PRValue)"
| "call_expr (TConst T) = (T, PRValue)"
| "call_expr T = (T, PRValue)"

text \<open>The expression \<open>std::declval<T>()\<close>.\<close>

definition declval :: "ty \<Rightarrow> expr" where
  "declval T = call_expr (add_rvalue_reference T)"

text \<open>
  \<open>decltype(E)\<close> for an expression that is not an unparenthesized name or member
  access: \<open>T&\<close> for an lvalue, \<open>T&&\<close> for an xvalue, \<open>T\<close> for a prvalue.
\<close>

fun decltype :: "expr \<Rightarrow> ty" where
  "decltype (T, LValue) = TLRef T"
| "decltype (T, XValue) = TRRef T"
| "decltype (T, PRValue) = T"

subsection \<open>Class declarations\<close>

datatype access = Public | Private

text \<open>
  The ref-qualifier of a non-static member function, and its return type: declared (or
  deduced from a body that compiles), or a placeholder type whose deduction has to
  instantiate a body that does not compile.
\<close>

datatype ref_qualifier = NoRefQualifier | LvalueQualified | RvalueQualified

datatype return_type = Returns ty | DeductionFails

text \<open>
  A non-static member function: its name (\<open>operator=\<close> for an assignment operator), its
  parameter types, its return type, whether it is a \<open>const\<close> member, its ref-qualifier,
  its access, and whether it is defined as deleted.
\<close>

record method_decl =
  m_name :: string
  m_params :: "ty list"
  m_return :: return_type
  m_const :: bool
  m_ref :: ref_qualifier
  m_access :: access
  m_deleted :: bool

text \<open>
  A class: its member type aliases, its non-static data members and its non-static
  member functions, the implicitly declared ones included.
\<close>

record class_decl =
  member_types :: "(string \<times> access \<times> ty) list"
  data_members :: "(string \<times> access \<times> ty) list"
  member_functions :: "method_decl list"

type_synonym class_table = "string \<Rightarrow> class_decl option"

text \<open>The class a (possibly \<open>const\<close>) type names; \<open>None\<close> for every other type.\<close>

definition class_of :: "class_table \<Rightarrow> ty \<Rightarrow> class_decl option" where
  "class_of ct T = (case unqual T of TClass n \<Rightarrow> ct n | _ \<Rightarrow> None)"

text \<open>
  A declaration found by name is usable from namespace scope only when it is public:
  access is checked as part of substitution.
\<close>

fun accessible :: "(access \<times> ty) option \<Rightarrow> ty outcome" where
  "accessible None = SubstitutionFailure"
| "accessible (Some (Public, T)) = WellFormed T"
| "accessible (Some (Private, T)) = SubstitutionFailure"

text \<open>\<open>typename Tp::name\<close>\<close>

definition nested_type :: "class_table \<Rightarrow> ty \<Rightarrow> string \<Rightarrow> ty outcome" where
  "nested_type ct Tp name =
     (case class_of ct Tp of
        None \<Rightarrow> SubstitutionFailure
      | Some C \<Rightarrow> accessible (map_of (member_types C) name))"

text \<open>
  \<open>decltype(E.name)\<close>: the declared type of the data member \<open>name\<close> of the class of \<open>E\<close>.
  Only data members are looked at: naming a non-static member function without calling
  it is ill-formed.
\<close>

definition decltype_member :: "class_table \<Rightarrow> expr \<Rightarrow> string \<Rightarrow> ty outcome" where
  "decltype_member ct E name =
     (case class_of ct (fst E) of
        None \<Rightarrow> SubstitutionFailure
      | Some C \<Rightarrow> accessible (map_of (data_members C) name))"

subsection \<open>Calls of member functions\<close>

text \<open>
  The resolution of a call depends on the implicit conversion sequences of the
  language: whether an argument expression can initialise a parameter of a given type,
  and which of two parameter types it initialises by the better conversion sequence.
  They are a parameter of everything below.
\<close>

record conversion_rules =
  converts_to :: "expr \<Rightarrow> ty \<Rightarrow> bool"
  better_conversion :: "expr \<Rightarrow> ty \<Rightarrow> ty \<Rightarrow> bool"

text \<open>
  The implicit object parameter. Without a ref-qualifier a member function is called on
  lvalues and rvalues alike, a \<open>const\<close> object only calling \<open>const\<close> member functions.
  With \<open>&\<close> the object parameter is an lvalue reference (to \<open>const\<close> for a \<open>const\<close> member,
  and then it binds to everything); with \<open>&&\<close> it is an rvalue reference.
\<close>

fun object_binds :: "expr \<Rightarrow> bool \<Rightarrow> ref_qualifier \<Rightarrow> bool" where
  "object_binds (T, c) const_member NoRefQualifier =
     (if is_const T then const_member else True)"
| "object_binds (T, c) const_member LvalueQualified =
     (if const_member then True else is_lvalue c \<and> is_mutable T)"
| "object_binds (T, c) const_member RvalueQualified =
     (is_rvalue c \<and> (if is_const T then const_member else True))"

text \<open>
  The object parameter of \<open>m1\<close> is the better one: an rvalue reference against an lvalue
  reference (ref-qualified member functions only), or else the less \<open>const\<close>-qualified
  one.
\<close>

definition better_object :: "method_decl \<Rightarrow> method_decl \<Rightarrow> bool" where
  "better_object m1 m2 =
     (if m_ref m1 = RvalueQualified \<and> m_ref m2 = LvalueQualified then True
      else if m_ref m1 = LvalueQualified \<and> m_ref m2 = RvalueQualified then False
      else if m_const m1 then False
      else m_const m2)"

text \<open>
  The viable candidates of the call \<open>Obj.name(Arg)\<close>: the member functions of that name
  with one parameter that the object and the argument can initialise.
\<close>

definition viable :: "conversion_rules \<Rightarrow> string \<Rightarrow> expr \<Rightarrow> expr \<Rightarrow> method_decl \<Rightarrow> bool" where
  "viable rules name Obj Arg m =
     (m_name m = name \<and> object_binds Obj (m_const m) (m_ref m) \<and>
      (case m_params m of [P] \<Rightarrow> converts_to rules Arg P | _ \<Rightarrow> False))"

definition candidates ::
  "conversion_rules \<Rightarrow> class_decl \<Rightarrow> string \<Rightarrow> expr \<Rightarrow> expr \<Rightarrow> method_decl list" where
  "candidates rules C name Obj Arg = filter (viable rules name Obj Arg) (member_functions C)"

text \<open>
  \<open>m1\<close> is a better candidate than \<open>m2\<close>: no worse conversion for the object and for the
  argument, and a better one for at least one of them.
\<close>

definition better_candidate ::
  "conversion_rules \<Rightarrow> expr \<Rightarrow> method_decl \<Rightarrow> method_decl \<Rightarrow> bool" where
  "better_candidate rules Arg m1 m2 =
     (case (m_params m1, m_params m2) of
        ([P1], [P2]) \<Rightarrow>
          (if better_object m2 m1 \<or> better_conversion rules Arg P2 P1 then False
           else better_object m1 m2 \<or> better_conversion rules Arg P1 P2)
      | _ \<Rightarrow> False)"

text \<open>
  Overload resolution selects the candidate that is better than every other one; the
  call is ambiguous, hence ill-formed, when there is none or more than one.
\<close>

definition best_viable ::
  "conversion_rules \<Rightarrow> expr \<Rightarrow> method_decl list \<Rightarrow> method_decl option" where
  "best_viable rules Arg ms =
     (case filter (\<lambda>m. list_all (\<lambda>m'. m' = m \<or> better_candidate rules Arg m m') ms) ms of
        [m] \<Rightarrow> Some m
      | _ \<Rightarrow> None)"

text \<open>
  The call is well-formed when the selected function is accessible and not deleted;
  access and deletion are checked after overload resolution, on the function selected.
  The type of the call needs the return type of that function: deducing it from a body
  that does not compile is an error inside that body.
\<close>

definition call_member ::
  "conversion_rules \<Rightarrow> class_decl \<Rightarrow> expr \<Rightarrow> string \<Rightarrow> expr \<Rightarrow> expr outcome" where
  "call_member rules C Obj name Arg =
     (case best_viable rules Arg (candidates rules C name Obj Arg) of
        None \<Rightarrow> SubstitutionFailure
      | Some m \<Rightarrow>
          if m_access m = Public \<and> \<not> m_deleted m
          then (case m_return m of
                  Returns R \<Rightarrow> WellFormed (call_expr R)
                | DeductionFails \<Rightarrow> HardError)
          else SubstitutionFailure)"

text \<open>The expression \<open>Obj.name(Arg)\<close>: the object has to be of class type.\<close>

definition method_call ::
  "conversion_rules \<Rightarrow> class_table \<Rightarrow> expr \<Rightarrow> string \<Rightarrow> expr \<Rightarrow> expr outcome" where
  "method_call rules ct Obj name Arg =
     (case class_of ct (fst Obj) of
        None \<Rightarrow> SubstitutionFailure
      | Some C \<Rightarrow> call_member rules C Obj name Arg)"

text \<open>
  The expression \<open>L = R\<close>. For a left operand of class type it is the call
  \<open>L.operator=(R)\<close>. For a left operand of scalar type it is the built-in assignment,
  which requires a modifiable lvalue on the left and a right operand that converts to
  the type of the left one, and is an lvalue of the left operand. Nothing else can be
  assigned to.
\<close>

definition assign :: "conversion_rules \<Rightarrow> class_table \<Rightarrow> expr \<Rightarrow> expr \<Rightarrow> expr outcome" where
  "assign rules ct L R =
     (case class_of ct (fst L) of
        Some C \<Rightarrow> call_member rules C L ''operator='' R
      | None \<Rightarrow>
          if scalar (unqual (fst L)) \<and> is_lvalue (snd L) \<and> is_mutable (fst L) \<and>
             converts_to rules R (unqual (fst L))
          then WellFormed (fst L, LValue)
          else SubstitutionFailure)"

subsection \<open>The implicit conversion sequences\<close>

text \<open>
  The standard conversions between the types above, by rank: the identity; a
  qualification conversion (an exact match too, but not the identity); a conversion
  proper (between the arithmetic types, or of an object pointer to a pointer to \<open>void\<close>).
  Classes here declare no conversion function and no converting constructor, so there
  is no user-defined conversion; an object of class type initialises a parameter of its
  own type by the identity.
\<close>

datatype conversion = Identity | Qualification | Conversion

fun conversion_order :: "conversion \<Rightarrow> nat" where
  "conversion_order Identity = 0"
| "conversion_order Qualification = 1"
| "conversion_order Conversion = 2"

text \<open>
  The qualification conversion of a pointer to \<open>A\<close> into a pointer to \<open>B\<close>, level by
  level below the pointer: \<open>const\<close> is never dropped, and where it is added every level
  above (below the outermost pointer) has to be \<open>const\<close> in \<open>B\<close>; the flag says that they
  are.
\<close>

fun qualifies :: "bool \<Rightarrow> ty \<Rightarrow> ty \<Rightarrow> bool" where
  "qualifies all_const (TConst (TPtr A)) B =
     (case B of TConst (TPtr B') \<Rightarrow> qualifies all_const A B' | _ \<Rightarrow> False)"
| "qualifies all_const (TPtr A) B =
     (case B of
        TConst (TPtr B') \<Rightarrow> all_const \<and> qualifies all_const A B'
      | TPtr B' \<Rightarrow> qualifies False A B'
      | _ \<Rightarrow> False)"
| "qualifies all_const (TConst A) B = (B = TConst A)"
| "qualifies all_const A B = (B = A \<or> (all_const \<and> B = TConst A))"

text \<open>
  The same walk for comparing two target types of a qualification conversion: \<open>A\<close> has
  \<open>const\<close> at no level where \<open>B\<close> has not.
\<close>

fun no_more_const :: "ty \<Rightarrow> ty \<Rightarrow> bool" where
  "no_more_const (TConst (TPtr A)) B =
     (case B of TConst (TPtr B') \<Rightarrow> no_more_const A B' | _ \<Rightarrow> False)"
| "no_more_const (TPtr A) B =
     (case B of
        TConst (TPtr B') \<Rightarrow> no_more_const A B'
      | TPtr B' \<Rightarrow> no_more_const A B'
      | _ \<Rightarrow> False)"
| "no_more_const (TConst A) B = (B = TConst A)"
| "no_more_const A B = (B = A \<or> B = TConst A)"

definition less_qualified :: "ty \<Rightarrow> ty \<Rightarrow> bool" where
  "less_qualified U1 U2 =
     (case (U1, U2) of
        (TPtr A1, TPtr A2) \<Rightarrow> no_more_const A1 A2 \<and> A1 \<noteq> A2
      | _ \<Rightarrow> False)"

text \<open>
  The standard conversion of a value of the cv-unqualified type \<open>S\<close> to the
  cv-unqualified type \<open>U\<close>, if there is one. Nothing converts from or to \<open>void\<close>.
\<close>

definition standard_conversion :: "ty \<Rightarrow> ty \<Rightarrow> conversion option" where
  "standard_conversion S U =
     (if S = TVoid \<or> U = TVoid then None
      else if S = U then Some Identity
      else if arithmetic S \<and> arithmetic U then Some Conversion
      else (case (S, U) of
              (TPtr A, TPtr B) \<Rightarrow>
                if qualifies True A B then Some Qualification
                else if unqual B = TVoid \<and> (is_const B \<or> is_mutable A) then Some Conversion
                else None
            | _ \<Rightarrow> None))"

text \<open>
  The implicit conversion sequence that initialises a parameter of type \<open>P\<close> with the
  argument expression, if there is one.
  \<^item> \<open>const T&\<close> binds directly to an argument of type \<open>T\<close>, and otherwise to the
    temporary of a conversion to \<open>T\<close>.
  \<^item> \<open>T&\<close> binds to an lvalue of exactly the type \<open>T\<close>.
  \<^item> \<open>T&&\<close> binds to an rvalue of type \<open>T\<close> without dropping \<open>const\<close>, never to an lvalue
    of that type, and otherwise to the temporary of a conversion to \<open>T\<close>.
  \<^item> A parameter passed by value takes whatever converts to its type.
\<close>

fun implicit_conversion :: "expr \<Rightarrow> ty \<Rightarrow> conversion option" where
  "implicit_conversion (S, c) (TLRef T) =
     (if is_const T then standard_conversion (unqual S) (unqual T)
      else if is_lvalue c \<and> S = T then standard_conversion (unqual S) (unqual T)
      else None)"
| "implicit_conversion (S, c) (TRRef T) =
     (if unqual S = unqual T
      then (if is_rvalue c \<and> (is_const T \<or> is_mutable S)
            then standard_conversion (unqual S) (unqual T)
            else None)
      else standard_conversion (unqual S) (unqual T))"
| "implicit_conversion (S, c) P = standard_conversion (unqual S) (unqual P)"

definition binds :: "expr \<Rightarrow> ty \<Rightarrow> bool" where
  "binds E P = (case implicit_conversion E P of None \<Rightarrow> False | Some k \<Rightarrow> True)"

text \<open>The referred type of a parameter type, and the kind of the parameter.\<close>

fun referred :: "ty \<Rightarrow> ty" where
  "referred (TLRef T) = T"
| "referred (TRRef T) = T"
| "referred T = T"

fun is_lref :: "ty \<Rightarrow> bool" where
  "is_lref (TLRef T) = True"
| "is_lref T = False"

fun is_rref :: "ty \<Rightarrow> bool" where
  "is_rref (TRRef T) = True"
| "is_rref T = False"

text \<open>
  Initialising \<open>P1\<close> is a better conversion sequence than initialising \<open>P2\<close>, for an
  argument that can initialise both. In this order:
  \<^item> the identity is better than a qualification conversion, and both are better than
    a conversion proper;
  \<^item> an rvalue reference is better than an lvalue reference (an rvalue reference that
    can be initialised binds to an rvalue: the argument itself or the temporary of the
    conversion);
  \<^item> of two qualification conversions, the one that adds less \<open>const\<close> is better;
  \<^item> of two references to the same type, the one to the less \<open>const\<close>-qualified type
    is better.
\<close>

definition better_binding :: "expr \<Rightarrow> ty \<Rightarrow> ty \<Rightarrow> bool" where
  "better_binding E P1 P2 =
     (case (implicit_conversion E P1, implicit_conversion E P2) of
        (Some k1, Some k2) \<Rightarrow>
          if conversion_order k1 < conversion_order k2 then True
          else if conversion_order k2 < conversion_order k1 then False
          else if is_rref P1 \<and> is_lref P2 then True
          else if is_lref P1 \<and> is_rref P2 then False
          else if less_qualified (unqual (referred P1)) (unqual (referred P2)) then True
          else if less_qualified (unqual (referred P2)) (unqual (referred P1)) then False
          else ((is_lref P1 \<and> is_lref P2) \<or> (is_rref P1 \<and> is_rref P2)) \<and>
               unqual (referred P1) = unqual (referred P2) \<and>
               is_mutable (referred P1) \<and> is_const (referred P2)
      | _ \<Rightarrow> False)"

text \<open>The conversion rules of the language the translation unit is written in.\<close>

definition cxx :: conversion_rules where
  "cxx = \<lparr>converts_to = binds, better_conversion = better_binding\<rparr>"

section \<open>The probes of the translation unit\<close>

text \<open>\<open>template <typename Tp> using ValueType = typename Tp::value_type\<close>\<close>

definition ValueType :: "class_table \<Rightarrow> probe" where
  "ValueType ct Tp = nested_type ct Tp ''value_type''"

text \<open>\<open>using has_value_type = meta::has_member<ValueType, Tp>\<close>\<close>

definition has_value_type :: "class_table \<Rightarrow> ty \<Rightarrow> integral_constant outcome" where
  "has_value_type ct Tp = has_member_default (ValueType ct) Tp"

text \<open>\<open>using InspectDataProperty = decltype(std::declval<Tp>().data)\<close>\<close>

definition InspectDataProperty :: "class_table \<Rightarrow> probe" where
  "InspectDataProperty ct Tp = decltype_member ct (declval Tp) ''data''"

text \<open>\<open>using has_data_property = meta::has_member<detail::InspectDataProperty, Tp>\<close>\<close>

definition has_data_property :: "class_table \<Rightarrow> ty \<Rightarrow> integral_constant outcome" where
  "has_data_property ct Tp = has_member_default (InspectDataProperty ct) Tp"

text \<open>
  \<open>using InspectReserve = decltype(
       std::declval<Tp>().reserve(std::declval<typename Tp::size_type>()))\<close>
\<close>

definition InspectReserve :: "conversion_rules \<Rightarrow> class_table \<Rightarrow> probe" where
  "InspectReserve rules ct Tp =
     (case nested_type ct Tp ''size_type'' of
        WellFormed S \<Rightarrow>
          map_outcome decltype (method_call rules ct (declval Tp) ''reserve'' (declval S))
      | SubstitutionFailure \<Rightarrow> SubstitutionFailure
      | HardError \<Rightarrow> HardError)"

text \<open>\<open>using has_reserve = meta::has_member<detail::InspectReserve, Tp>\<close>\<close>

definition has_reserve ::
  "conversion_rules \<Rightarrow> class_table \<Rightarrow> ty \<Rightarrow> integral_constant outcome" where
  "has_reserve rules ct Tp = has_member_default (InspectReserve rules ct) Tp"

text \<open>
  \<open>using InspectCopyAssignable =
       decltype(std::declval<Tp>() = std::declval<Tp const&>())\<close>
\<close>

definition InspectCopyAssignable :: "conversion_rules \<Rightarrow> class_table \<Rightarrow> probe" where
  "InspectCopyAssignable rules ct Tp =
     (case add_lvalue_reference (add_const Tp) of
        WellFormed R \<Rightarrow> map_outcome decltype (assign rules ct (declval Tp) (declval R))
      | SubstitutionFailure \<Rightarrow> SubstitutionFailure
      | HardError \<Rightarrow> HardError)"

text \<open>\<open>using is_copy_assignable = meta::has_member<detail::InspectCopyAssignable, Tp>\<close>\<close>

definition is_copy_assignable ::
  "conversion_rules \<Rightarrow> class_table \<Rightarrow> ty \<Rightarrow> integral_constant outcome" where
  "is_copy_assignable rules ct Tp = has_member_default (InspectCopyAssignable rules ct) Tp"

subsection \<open>The classes of the translation unit\<close>

text \<open>
  A public member function that is not \<open>const\<close>, not ref-qualified and not deleted, with
  a declared return type.
\<close>

definition public_method :: "string \<Rightarrow> ty list \<Rightarrow> ty \<Rightarrow> method_decl" where
  "public_method name Ps R =
     \<lparr>m_name = name, m_params = Ps, m_return = Returns R, m_const = False,
      m_ref = NoRefQualifier, m_access = Public, m_deleted = False\<rparr>"

text \<open>
  The assignment operators the language declares implicitly for a class \<open>C\<close> that
  declares none: \<open>C& operator=(const C&)\<close> and \<open>C& operator=(C&&)\<close>, public.
\<close>

definition copy_assignment :: "string \<Rightarrow> method_decl" where
  "copy_assignment n = public_method ''operator='' [TLRef (TConst (TClass n))] (TLRef (TClass n))"

definition move_assignment :: "string \<Rightarrow> method_decl" where
  "move_assignment n = public_method ''operator='' [TRRef (TClass n)] (TLRef (TClass n))"

text \<open>\<open>struct TypeWithPublicData { int data; };\<close>\<close>

definition TypeWithPublicData :: class_decl where
  "TypeWithPublicData =
     \<lparr>member_types = [],
      data_members = [(''data'', Public, TInt)],
      member_functions =
        [copy_assignment ''TypeWithPublicData'', move_assignment ''TypeWithPublicData'']\<rparr>"

text \<open>\<open>struct TypeWithPrivateData { private: int data; };\<close>\<close>

definition TypeWithPrivateData :: class_decl where
  "TypeWithPrivateData =
     \<lparr>member_types = [],
      data_members = [(''data'', Private, TInt)],
      member_functions =
        [copy_assignment ''TypeWithPrivateData'', move_assignment ''TypeWithPrivateData'']\<rparr>"

text \<open>
  Modelled from the spec: the header \<open><vector>\<close> is not part of the repository.
  \<open>std::vector<int>\<close> is the dynamic array of \<open>int\<close>: it declares the element-type alias
  \<open>value_type\<close> and the size-unit alias \<open>size_type\<close>, has no public data member (\<open>data\<close>
  is a member function), has \<open>reserve(size_type)\<close>, and is copy- and move-assignable.
\<close>

definition std_vector_int :: class_decl where
  "std_vector_int =
     \<lparr>member_types =
        [(''value_type'', Public, TInt), (''size_type'', Public, TULong),
         (''pointer'', Public, TPtr TInt), (''reference'', Public, TLRef TInt)],
      data_members = [],
      member_functions =
        [copy_assignment ''std::vector<int>'', move_assignment ''std::vector<int>'',
         public_method ''reserve'' [TULong] TVoid,
         public_method ''data'' [] (TPtr TInt),
         (public_method ''data'' [] (TPtr (TConst TInt)))\<lparr>m_const := True\<rparr>,
         (public_method ''size'' [] TULong)\<lparr>m_const := True\<rparr>]\<rparr>"

text \<open>
  Modelled from the spec: the header \<open><utility>\<close> is not part of the repository.
  \<open>std::pair<int, int>\<close> is the pair of \<open>int\<close>s: it declares the aliases \<open>first_type\<close>
  and \<open>second_type\<close> and no element-type alias, has the public data members \<open>first\<close>
  and \<open>second\<close>, and is copy- and move-assignable.
\<close>

definition std_pair_int_int :: class_decl where
  "std_pair_int_int =
     \<lparr>member_types = [(''first_type'', Public, TInt), (''second_type'', Public, TInt)],
      data_members = [(''first'', Public, TInt), (''second'', Public, TInt)],
      member_functions =
        [copy_assignment ''std::pair<int,int>'', move_assignment ''std::pair<int,int>'']\<rparr>"

text \<open>
  Modelled from the spec: the header \<open><array>\<close> is not part of the repository.
  \<open>std::array<int, 10>\<close> is the fixed-size array of \<open>int\<close>: it declares \<open>value_type\<close> and
  \<open>size_type\<close>, has the member functions \<open>data\<close> and \<open>size\<close>, the implicit assignment
  operators, and no \<open>reserve\<close>.
\<close>

definition std_array_int_10 :: class_decl where
  "std_array_int_10 =
     \<lparr>member_types =
        [(''value_type'', Public, TInt), (''size_type'', Public, TULong),
         (''pointer'', Public, TPtr TInt), (''reference'', Public, TLRef TInt)],
      data_members = [],
      member_functions =
        [copy_assignment ''std::array<int,10>'', move_assignment ''std::array<int,10>'',
         public_method ''data'' [] (TPtr TInt),
         (public_method ''data'' [] (TPtr (TConst TInt)))\<lparr>m_const := True\<rparr>,
         (public_method ''size'' [] TULong)\<lparr>m_const := True\<rparr>]\<rparr>"

text \<open>
  Modelled from the spec: the header \<open><memory>\<close> is not part of the repository.
  \<open>std::unique_ptr<int>\<close> is the uniquely-owning pointer: it declares the aliases
  \<open>pointer\<close> and \<open>element_type\<close>, its assignment from a read-only reference is
  suppressed (\<open>operator=(const unique_ptr&) = delete\<close>), and it is move-assignable.
\<close>

definition std_unique_ptr_int :: class_decl where
  "std_unique_ptr_int =
     \<lparr>member_types = [(''pointer'', Public, TPtr TInt), (''element_type'', Public, TInt)],
      data_members = [],
      member_functions =
        [move_assignment ''std::unique_ptr<int>'',
         (copy_assignment ''std::unique_ptr<int>'')\<lparr>m_deleted := True\<rparr>,
         (public_method ''get'' [] (TPtr TInt))\<lparr>m_const := True\<rparr>]\<rparr>"

text \<open>The classes named in the translation unit.\<close>

definition translation_unit :: class_table where
  "translation_unit =
     map_of
       [(''TypeWithPublicData'', TypeWithPublicData),
        (''TypeWithPrivateData'', TypeWithPrivateData),
        (''std::vector<int>'', std_vector_int),
        (''std::pair<int,int>'', std_pair_int_int),
        (''std::array<int,10>'', std_array_int_10),
        (''std::unique_ptr<int>'', std_unique_ptr_int)]"

subsection \<open>Further inputs\<close>

text \<open>
  The templates of the translation unit accept every probe and every class. The
  declarations below are not in the translation unit; they are inputs on which the
  properties of its templates are exercised.

  \<open>template <typename...> struct Empty {};\<close> has no member \<open>type\<close>, and
  \<open>template <typename Tp> using ApplyEmpty = meta::apply_t<Empty, Tp>;\<close> is a probe
  written with the \<open>apply_t\<close> of the translation unit.
\<close>

definition Empty :: metafunction where
  "Empty Ts = None"

definition ApplyEmpty :: probe where
  "ApplyEmpty Tp = apply_t Empty [Tp]"

text \<open>
  \<open>template <typename T> struct DeducedReserve {
     using size_type = unsigned long;
     auto reserve(size_type n) { return T::nothing(n); }
   };\<close>
  at \<open>T = int\<close>: the return type of \<open>reserve\<close> is deduced from a body that does not
  compile.
\<close>

definition DeducedReserve :: class_decl where
  "DeducedReserve =
     \<lparr>member_types = [(''size_type'', Public, TULong)],
      data_members = [],
      member_functions =
        [copy_assignment ''DeducedReserve<int>'', move_assignment ''DeducedReserve<int>'',
         (public_method ''reserve'' [TULong] TVoid)\<lparr>m_return := DeductionFails\<rparr>]\<rparr>"

text \<open>\<open>struct UnsizedReserve { void reserve(unsigned long); };\<close>: no alias \<open>size_type\<close>.\<close>

definition UnsizedReserve :: class_decl where
  "UnsizedReserve =
     \<lparr>member_types = [],
      data_members = [],
      member_functions =
        [copy_assignment ''UnsizedReserve'', move_assignment ''UnsizedReserve'',
         public_method ''reserve'' [TULong] TVoid]\<rparr>"

text \<open>
  \<open>struct PointerReserve { using size_type = unsigned long; void reserve(int*); };\<close>:
  \<open>reserve\<close> does not accept an argument of type \<open>size_type\<close>.
\<close>

definition PointerReserve :: class_decl where
  "PointerReserve =
     \<lparr>member_types = [(''size_type'', Public, TULong)],
      data_members = [],
      member_functions =
        [copy_assignment ''PointerReserve'', move_assignment ''PointerReserve'',
         public_method ''reserve'' [TPtr TInt] TVoid]\<rparr>"

text \<open>
  \<open>class PrivateReserve { void reserve(unsigned long);
     public: using size_type = unsigned long; };\<close>: \<open>reserve\<close> is inaccessible.
\<close>

definition PrivateReserve :: class_decl where
  "PrivateReserve =
     \<lparr>member_types = [(''size_type'', Public, TULong)],
      data_members = [],
      member_functions =
        [copy_assignment ''PrivateReserve'', move_assignment ''PrivateReserve'',
         (public_method ''reserve'' [TULong] TVoid)\<lparr>m_access := Private\<rparr>]\<rparr>"

text \<open>
  \<open>struct DeletedReserve { using size_type = unsigned long;
     void reserve(unsigned long) = delete; };\<close>
\<close>

definition DeletedReserve :: class_decl where
  "DeletedReserve =
     \<lparr>member_types = [(''size_type'', Public, TULong)],
      data_members = [],
      member_functions =
        [copy_assignment ''DeletedReserve'', move_assignment ''DeletedReserve'',
         (public_method ''reserve'' [TULong] TVoid)\<lparr>m_deleted := True\<rparr>]\<rparr>"

definition further_classes :: class_table where
  "further_classes =
     map_of
       [(''DeducedReserve<int>'', DeducedReserve),
        (''UnsizedReserve'', UnsizedReserve),
        (''PointerReserve'', PointerReserve),
        (''PrivateReserve'', PrivateReserve),
        (''DeletedReserve'', DeletedReserve)]"

section \<open>Properties of the voidifying utility\<close>

lemma void_t_void: "void_t Ts = WellFormed TVoid"
  by (simp add: void_t_def apply_t_def apply_meta_def voider_def)

lemma template_args_well_formed:
  "list_all is_well_formed Es \<Longrightarrow> is_well_formed (template_args Es)"
proof (induction Es rule: template_args.induct)
  case (2 A As)
  then show ?case by (cases "template_args As") simp_all
qed simp_all

lemma void_t_of_well_formed:
  assumes "list_all is_well_formed Es"
  shows "void_t_of Es = WellFormed TVoid"
proof -
  from template_args_well_formed [OF assms]
  obtain Ts where "template_args Es = WellFormed Ts"
    by (cases "template_args Es") simp_all
  then show ?thesis by (simp add: void_t_of_def void_t_void)
qed

lemma void_t_of_single:
  "void_t_of [E] =
     (case E of
        WellFormed T \<Rightarrow> WellFormed TVoid
      | SubstitutionFailure \<Rightarrow> SubstitutionFailure
      | HardError \<Rightarrow> HardError)"
  by (cases E) (simp_all add: void_t_of_def void_t_void)

lemma void_t_of_empty: "void_t_of [] = WellFormed TVoid"
  by (simp add: void_t_of_def void_t_void)

section \<open>Properties of the detection predicate\<close>

lemma has_member_void:
  "has_member Member Tp TVoid =
     (case Member Tp of
        WellFormed T \<Rightarrow> WellFormed true_type
      | SubstitutionFailure \<Rightarrow> WellFormed false_type
      | HardError \<Rightarrow> HardError)"
  by (cases "Member Tp")
     (simp_all add: has_member_def has_member_specialization_def has_member_primary_def
        void_t_of_single)

lemma has_member_default_void:
  "has_member_default Member Tp = has_member Member Tp TVoid"
  by (simp add: has_member_default_def void_t_of_empty)

lemma value_of_has_member_default:
  "value_of (has_member_default Member Tp) =
     (case Member Tp of
        WellFormed T \<Rightarrow> WellFormed True
      | SubstitutionFailure \<Rightarrow> WellFormed False
      | HardError \<Rightarrow> HardError)"
  by (cases "Member Tp") (simp_all add: value_of_def has_member_default_void has_member_void)

lemma has_member_value_cases:
  "has_member_value Member Tp =
     (case Member Tp of
        WellFormed T \<Rightarrow> WellFormed True
      | SubstitutionFailure \<Rightarrow> WellFormed False
      | HardError \<Rightarrow> HardError)"
  by (simp add: has_member_value_def value_of_has_member_default)


lemma ApplyEmpty_hard_error: "ApplyEmpty Tp = HardError"
  by (simp add: ApplyEmpty_def apply_t_def apply_meta_def Empty_def)

subsection \<open>The probes on the classes of the translation unit\<close>

lemma class_lookup:
  "translation_unit ''TypeWithPublicData'' = Some TypeWithPublicData"
  "translation_unit ''TypeWithPrivateData'' = Some TypeWithPrivateData"
  "translation_unit ''std::vector<int>'' = Some std_vector_int"
  "translation_unit ''std::pair<int,int>'' = Some std_pair_int_int"
  "translation_unit ''std::array<int,10>'' = Some std_array_int_10"
  "translation_unit ''std::unique_ptr<int>'' = Some std_unique_ptr_int"
  by (simp_all add: translation_unit_def)

lemma further_lookup:
  "further_classes ''DeducedReserve<int>'' = Some DeducedReserve"
  "further_classes ''UnsizedReserve'' = Some UnsizedReserve"
  "further_classes ''PointerReserve'' = Some PointerReserve"
  "further_classes ''PrivateReserve'' = Some PrivateReserve"
  "further_classes ''DeletedReserve'' = Some DeletedReserve"
  by (simp_all add: further_classes_def)

lemmas call_defs =
  method_call_def assign_def call_member_def best_viable_def candidates_def viable_def
  better_candidate_def better_object_def cxx_def binds_def better_binding_def
  standard_conversion_def less_qualified_def declval_def public_method_def copy_assignment_def
  move_assignment_def

lemma ValueType_vector:
  "ValueType translation_unit (TClass ''std::vector<int>'') = WellFormed TInt"
  by (simp add: ValueType_def nested_type_def class_of_def class_lookup std_vector_int_def)

lemma ValueType_pair:
  "ValueType translation_unit (TClass ''std::pair<int,int>'') = SubstitutionFailure"
  by (simp add: ValueType_def nested_type_def class_of_def class_lookup std_pair_int_int_def)

lemma ValueType_int: "ValueType ct TInt = SubstitutionFailure"
  by (simp add: ValueType_def nested_type_def class_of_def)

lemma InspectDataProperty_public:
  "InspectDataProperty translation_unit (TClass ''TypeWithPublicData'') = WellFormed TInt"
  by (simp add: InspectDataProperty_def decltype_member_def declval_def class_of_def
      class_lookup TypeWithPublicData_def)

lemma InspectDataProperty_private:
  "InspectDataProperty translation_unit (TClass ''TypeWithPrivateData'') =
     SubstitutionFailure"
  by (simp add: InspectDataProperty_def decltype_member_def declval_def class_of_def
      class_lookup TypeWithPrivateData_def)

lemma InspectDataProperty_vector:
  "InspectDataProperty translation_unit (TClass ''std::vector<int>'') = SubstitutionFailure"
  by (simp add: InspectDataProperty_def decltype_member_def declval_def class_of_def
      class_lookup std_vector_int_def)

lemma InspectDataProperty_int: "InspectDataProperty ct TInt = SubstitutionFailure"
  by (simp add: InspectDataProperty_def decltype_member_def declval_def class_of_def)



lemma InspectReserve_int: "InspectReserve rules ct TInt = SubstitutionFailure"
  by (simp add: InspectReserve_def nested_type_def class_of_def)

lemma InspectReserve_deduced:
  "InspectReserve cxx further_classes (TClass ''DeducedReserve<int>'') = HardError"
  by (simp add: InspectReserve_def nested_type_def class_of_def further_lookup
      DeducedReserve_def call_defs)





lemma InspectCopyAssignable_vector:
  "InspectCopyAssignable cxx translation_unit (TClass ''std::vector<int>'') =
     WellFormed (TLRef (TClass ''std::vector<int>''))"
  by (simp add: InspectCopyAssignable_def class_of_def class_lookup std_vector_int_def
      call_defs)

lemma InspectCopyAssignable_pair:
  "InspectCopyAssignable cxx translation_unit (TClass ''std::pair<int,int>'') =
     WellFormed (TLRef (TClass ''std::pair<int,int>''))"
  by (simp add: InspectCopyAssignable_def class_of_def class_lookup std_pair_int_int_def
      call_defs)

lemma InspectCopyAssignable_unique_ptr:
  "InspectCopyAssignable cxx translation_unit (TClass ''std::unique_ptr<int>'') =
     SubstitutionFailure"
  by (simp add: InspectCopyAssignable_def class_of_def class_lookup std_unique_ptr_int_def
      call_defs)

lemma InspectCopyAssignable_int: "InspectCopyAssignable rules ct TInt = SubstitutionFailure"
  by (simp add: InspectCopyAssignable_def assign_def class_of_def declval_def)

subsection \<open>What a well-formed call needs\<close>





section \<open>The claims\<close>

text \<open>
  C1, as it stands, fails: \<open>has_member\<close> does not contain every ill-formed probe
  instantiation. With the probe \<open>ApplyEmpty\<close>, written with the \<open>apply_t\<close> of the
  translation unit, \<open>has_member<ApplyEmpty, int>::value\<close> is neither \<open>true\<close> nor \<open>false\<close>
  but an error of the translation unit, raised in the body of \<open>struct apply\<close>; and so is
  \<open>has_reserve<DeducedReserve<int>>::value\<close>, raised in the body of \<open>reserve\<close>.
\<close>

theorem has_member_total_counterexample:
  "has_member_value ApplyEmpty TInt = HardError \<and>
   value_of (has_reserve cxx further_classes (TClass ''DeducedReserve<int>'')) = HardError"
  by (simp add: has_member_value_cases ApplyEmpty_hard_error has_reserve_def
      value_of_has_member_default InspectReserve_deduced)

text \<open>
  C1, amended: for every probe and every candidate type for which the probe
  instantiation \<open>Member<Tp>\<close> is well-formed or fails in the immediate context of the
  substitution, \<open>has_member<Member, Tp>::value\<close> is \<open>true\<close> or \<open>false\<close>, and such a failure
  stays inside the probe and gives \<open>false\<close>. An error outside the immediate context is
  not contained: it is an error at the point of use.
\<close>

theorem has_member_total_immediate_context:
  "(Member Tp \<noteq> HardError \<longrightarrow>
      has_member_value Member Tp = WellFormed True \<or>
      has_member_value Member Tp = WellFormed False) \<and>
   (Member Tp = SubstitutionFailure \<longrightarrow> has_member_value Member Tp = WellFormed False) \<and>
   (Member Tp = HardError \<longrightarrow> has_member_value Member Tp = HardError)"
  by (cases "Member Tp") (simp_all add: has_member_value_cases)

theorem has_member_total_immediate_context_witness:
  "(ValueType translation_unit (TClass ''std::vector<int>'') \<noteq> HardError \<and>
    has_member_value (ValueType translation_unit) (TClass ''std::vector<int>'') =
      WellFormed True) \<and>
   (ValueType translation_unit TInt = SubstitutionFailure \<and>
    has_member_value (ValueType translation_unit) TInt = WellFormed False) \<and>
   (ApplyEmpty TInt = HardError \<and> has_member_value ApplyEmpty TInt = HardError)"
  using has_member_total_immediate_context
      [of "ValueType translation_unit" "TClass ''std::vector<int>''"]
    has_member_total_immediate_context [of "ValueType translation_unit" TInt]
    has_member_total_immediate_context [of ApplyEmpty TInt]
  by (simp add: ValueType_vector ValueType_int ApplyEmpty_hard_error has_member_value_cases)

text \<open>
  C2: \<open>has_member<Member, Tp>::value\<close> is \<open>true\<close> exactly when the probe instantiation
  \<open>Member<Tp>\<close> is well-formed, which is when \<open>void_t<Member<Tp>>\<close> is; when the probe
  is ill-formed (a substitution failure) no specialization matches and the value is
  \<open>false\<close>.
\<close>

theorem has_member_iff_well_formed:
  "has_member_value Member Tp =
     (case Member Tp of
        WellFormed T \<Rightarrow> WellFormed True
      | SubstitutionFailure \<Rightarrow> WellFormed False
      | HardError \<Rightarrow> HardError) \<and>
   (has_member_value Member Tp = WellFormed True) = is_well_formed (Member Tp) \<and>
   is_well_formed (void_t_of [Member Tp]) = is_well_formed (Member Tp) \<and>
   (has_member_specialization Member Tp TVoid = SubstitutionFailure) =
     (Member Tp = SubstitutionFailure)"
  by (cases "Member Tp")
     (simp_all add: has_member_value_cases has_member_specialization_def void_t_of_single)

text \<open>
  C3: the nested value-type-alias probe is \<open>true\<close> for \<open>std::vector<int>\<close> and \<open>false\<close>
  for \<open>std::pair<int, int>\<close> and for \<open>int\<close>.
\<close>

theorem has_value_type_cases:
  "value_of (has_value_type translation_unit (TClass ''std::vector<int>'')) =
     WellFormed True \<and>
   value_of (has_value_type translation_unit (TClass ''std::pair<int,int>'')) =
     WellFormed False \<and>
   value_of (has_value_type translation_unit TInt) = WellFormed False"
  by (simp add: has_value_type_def value_of_has_member_default ValueType_vector
      ValueType_pair ValueType_int)

text \<open>
  C4: the public-field probe is \<open>true\<close> for \<open>TypeWithPublicData\<close>, and \<open>false\<close> for
  \<open>std::vector<int>\<close>, for \<open>TypeWithPrivateData\<close> (the field exists but is inaccessible)
  and for \<open>int\<close>.
\<close>

theorem has_data_property_cases:
  "value_of (has_data_property translation_unit (TClass ''TypeWithPublicData'')) =
     WellFormed True \<and>
   value_of (has_data_property translation_unit (TClass ''std::vector<int>'')) =
     WellFormed False \<and>
   value_of (has_data_property translation_unit (TClass ''TypeWithPrivateData'')) =
     WellFormed False \<and>
   value_of (has_data_property translation_unit TInt) = WellFormed False"
  by (simp add: has_data_property_def value_of_has_member_default InspectDataProperty_public
      InspectDataProperty_vector InspectDataProperty_private InspectDataProperty_int)



text \<open>
  C6: the copy-assignment probe is \<open>true\<close> for \<open>std::vector<int>\<close> and for
  \<open>std::pair<int, int>\<close>, and \<open>false\<close> for \<open>std::unique_ptr<int>\<close>, whose assignment from
  a read-only reference is deleted.
\<close>

theorem is_copy_assignable_cases:
  "value_of (is_copy_assignable cxx translation_unit (TClass ''std::vector<int>'')) =
     WellFormed True \<and>
   value_of (is_copy_assignable cxx translation_unit (TClass ''std::pair<int,int>'')) =
     WellFormed True \<and>
   value_of (is_copy_assignable cxx translation_unit (TClass ''std::unique_ptr<int>'')) =
     WellFormed False"
  by (simp add: is_copy_assignable_def value_of_has_member_default
      InspectCopyAssignable_vector InspectCopyAssignable_pair
      InspectCopyAssignable_unique_ptr)

text \<open>
  C7: on \<open>int\<close> the copy-assignment probe is \<open>false\<close>, in every class table and whatever
  the implicit conversions are: \<open>std::declval<int>()\<close> is an rvalue, and the built-in
  assignment needs a modifiable lvalue on its left. This is the assertion the source
  leaves commented out with the remark that it fails.
\<close>

theorem is_copy_assignable_int:
  "InspectCopyAssignable rules ct TInt = SubstitutionFailure \<and>
   value_of (is_copy_assignable rules ct TInt) = WellFormed False"
  by (simp add: is_copy_assignable_def value_of_has_member_default
      InspectCopyAssignable_int)

text \<open>
  C8: for every sequence of type arguments, the empty one included, whose members are
  all well-formed, \<open>void_t<Ts...>\<close> is the one marker type \<open>void\<close>, whatever the
  arguments and however many.
\<close>

theorem void_t_canonical_marker:
  "void_t Ts = WellFormed TVoid \<and>
   void_t_of [] = WellFormed TVoid \<and>
   (list_all is_well_formed Es \<longrightarrow> void_t_of Es = WellFormed TVoid)"
  by (simp add: void_t_void void_t_of_empty void_t_of_well_formed)

theorem void_t_canonical_marker_witness:
  "list_all is_well_formed
     [WellFormed TInt, WellFormed (TClass ''std::vector<int>''), WellFormed (TLRef TULong)] \<and>
   void_t [TInt, TClass ''std::vector<int>'', TLRef TULong] = WellFormed TVoid \<and>
   void_t_of
     [WellFormed TInt, WellFormed (TClass ''std::vector<int>''), WellFormed (TLRef TULong)] =
     WellFormed TVoid \<and>
   void_t_of [] = WellFormed TVoid"
  using void_t_canonical_marker
    [of "[TInt, TClass ''std::vector<int>'', TLRef TULong]"
        "[WellFormed TInt, WellFormed (TClass ''std::vector<int>''),
          WellFormed (TLRef TULong)]"]
  by simp



end
